theory Spec2Isabelle
  imports
    Complex_Main
    "HOL-Library.Char_ord"
    "HOL-Library.List_Lexorder"
    "HOL-Library.Multiset"
    "HOL-Library.Sublist"
    "HOL-Library.Monad_Syntax"
begin

section \<open>Python values, exceptions and strings\<close>

text \<open>
  The catalog client of \<^verbatim>\<open>backend/services/modpack_service.py\<close> is embedded function by
  function. An exception is a value: its class and the exception that was being handled
  when it was raised (Python's implicit chaining). Messages are only logged or shown to
  people and are left out.

  The three \<^verbatim>\<open>httpx\<close> classes stand for themselves and their subclasses, in the order
  the \<^verbatim>\<open>except\<close> clauses of \<^verbatim>\<open>_make_request\<close> test them; \<open>OtherError\<close> is any
  exception class the module never names.
\<close>

datatype exc_class =
    ModpackServiceError | APIConnectionError | APIRateLimitError | ModpackNotFoundError
  | ConnectError | TimeoutException | HTTPError | JSONDecodeError
  | KeyError | TypeError | AttributeError | IndexError | ValueError | ValidationError
  | OtherError

datatype exn = Exn (cls: exc_class) (cause: "exn option")

text \<open>
  Decoded JSON, as \<^verbatim>\<open>response.json()\<close> hands it to the client: \<open>JNull\<close> is Python's
  \<^verbatim>\<open>None\<close>, an object is a \<^verbatim>\<open>dict\<close> (looked up with \<open>map_of\<close>). Numbers are the
  integers.
\<close>

datatype json =
    JNull | JBool bool | JInt int | JStr string | JList "json list"
  | JObj "(string \<times> json) list"

fun bindE :: "exn + 'a \<Rightarrow> ('a \<Rightarrow> exn + 'b) \<Rightarrow> exn + 'b" where
  "bindE (Inl e) f = Inl e"
| "bindE (Inr x) f = f x"

fun mapE :: "('a \<Rightarrow> exn + 'b) \<Rightarrow> 'a list \<Rightarrow> exn + 'b list" where
  "mapE f [] = Inr []"
| "mapE f (x # xs) = bindE (f x) (\<lambda>y. bindE (mapE f xs) (\<lambda>ys. Inr (y # ys)))"

text \<open>Truth value testing (\<^verbatim>\<open>if x:\<close>, \<^verbatim>\<open>not x\<close>).\<close>

fun truthy :: "json \<Rightarrow> bool" where
  "truthy JNull = False"
| "truthy (JBool b) = b"
| "truthy (JInt n) = (n \<noteq> 0)"
| "truthy (JStr s) = (s \<noteq> [])"
| "truthy (JList xs) = (xs \<noteq> [])"
| "truthy (JObj kvs) = (kvs \<noteq> [])"

text \<open>\<^verbatim>\<open>x[k]\<close> with a string key: only a dict can be subscripted by a string.\<close>

fun py_getitem :: "json \<Rightarrow> string \<Rightarrow> exn + json" where
  "py_getitem (JObj kvs) k =
     (case map_of kvs k of None \<Rightarrow> Inl (Exn KeyError None) | Some v \<Rightarrow> Inr v)"
| "py_getitem _ k = Inl (Exn TypeError None)"

text \<open>\<^verbatim>\<open>x.get(k, d)\<close>: only a dict has the method.\<close>

fun py_get :: "json \<Rightarrow> string \<Rightarrow> json \<Rightarrow> exn + json" where
  "py_get (JObj kvs) k d = Inr (case map_of kvs k of None \<Rightarrow> d | Some v \<Rightarrow> v)"
| "py_get _ k d = Inl (Exn AttributeError None)"

text \<open>
  What a \<^verbatim>\<open>for\<close> loop or a comprehension iterates over: the items of a list, the keys of
  a dict, the characters of a string; anything else is not iterable.
\<close>

fun py_iter :: "json \<Rightarrow> exn + json list" where
  "py_iter (JList xs) = Inr xs"
| "py_iter (JObj kvs) = Inr (map (\<lambda>kv. JStr (fst kv)) kvs)"
| "py_iter (JStr s) = Inr (map (\<lambda>c. JStr [c]) s)"
| "py_iter _ = Inl (Exn TypeError None)"

text \<open>\<^verbatim>\<open>x[0]\<close>.\<close>

fun py_index0 :: "json \<Rightarrow> exn + json" where
  "py_index0 (JList []) = Inl (Exn IndexError None)"
| "py_index0 (JList (x # xs)) = Inr x"
| "py_index0 (JStr []) = Inl (Exn IndexError None)"
| "py_index0 (JStr (c # cs)) = Inr (JStr [c])"
| "py_index0 (JObj kvs) = Inl (Exn KeyError None)"
| "py_index0 _ = Inl (Exn TypeError None)"

text \<open>\<^verbatim>\<open>x.replace("Z", "+00:00")\<close>: a method of strings only.\<close>

fun py_replace_Z :: "json \<Rightarrow> exn + string" where
  "py_replace_Z (JStr s) =
     Inr (concat (map (\<lambda>c. if c = CHR ''Z'' then ''+00:00'' else [c]) s))"
| "py_replace_Z _ = Inl (Exn AttributeError None)"

text \<open>
  Strings are ASCII text: \<^verbatim>\<open>str.lower()\<close> maps \<open>A\<close>..\<open>Z\<close> to \<open>a\<close>..\<open>z\<close>, \<^verbatim>\<open>a in b\<close> is
  \<open>sublist a b\<close>, and strings compare by code point.
\<close>

definition lower_char :: "char \<Rightarrow> char" where
  "lower_char c =
     (if CHR ''A'' \<le> c \<and> c \<le> CHR ''Z'' then char_of (of_char c + (32::nat)) else c)"

definition lower :: "string \<Rightarrow> string" where
  "lower s = map lower_char s"

fun py_join :: "string \<Rightarrow> string list \<Rightarrow> string" where
  "py_join sep [] = []"
| "py_join sep [x] = x"
| "py_join sep (x # y # ys) = x @ sep @ py_join sep (y # ys)"

text \<open>\<^verbatim>\<open>str(n)\<close> of an integer.\<close>

fun digits :: "nat \<Rightarrow> string" where
  "digits n =
     (if n < 10 then [''0123456789'' ! n]
      else digits (n div 10) @ [''0123456789'' ! (n mod 10)])"

declare digits.simps [simp del]

definition str_int :: "int \<Rightarrow> string" where
  "str_int i = (if i < 0 then CHR ''-'' # digits (nat (- i)) else digits (nat i))"

text \<open>\<^verbatim>\<open>xs[:n]\<close>: a negative bound counts from the end.\<close>

definition py_slice_to :: "int \<Rightarrow> 'a list \<Rightarrow> 'a list" where
  "py_slice_to n xs =
     (if 0 \<le> n then take (nat n) xs else take (length xs - nat (- n)) xs)"

section \<open>Result types\<close>

text \<open>
  A \<^verbatim>\<open>datetime\<close> is naive or timezone-aware; the integer is its instant in microseconds
  (for an aware value the UTC instant, which is what comparison and equality look at).
\<close>

datatype datetime = Naive int | Aware int

fun instant :: "datetime \<Rightarrow> int" where
  "instant (Naive t) = t"
| "instant (Aware t) = t"

fun is_aware :: "datetime \<Rightarrow> bool" where
  "is_aware (Naive t) = False"
| "is_aware (Aware t) = True"

record ModpackSearchResult =
  id_s :: int
  name_s :: string
  summary_s :: string
  download_count_s :: int
  categories_s :: "string list"
  authors_s :: "string list"
  logo_url_s :: "string option"
  last_updated_s :: "datetime option"

record ModpackDetails =
  id_d :: int
  name_d :: string
  summary_d :: string
  description_d :: string
  download_count_d :: int
  categories_d :: "string list"
  authors_d :: "string list"
  logo_url_d :: "string option"
  screenshots_d :: "string list"
  last_updated_d :: "datetime option"
  game_version_latest_d :: "string option"
  mod_loader_d :: "string option"

record ModpackVersion =
  id_v :: int
  display_name :: string
  file_name :: string
  file_date :: datetime
  download_url :: string
  game_versions :: "string list"
  mod_loader_v :: "string option"
  file_size :: int

text \<open>
  What the module takes from its libraries and does not define: \<^verbatim>\<open>datetime.fromisoformat\<close>
  (\<open>None\<close> where it raises \<^verbatim>\<open>ValueError\<close>) and pydantic's validation of a field annotated
  \<^verbatim>\<open>int\<close> or \<^verbatim>\<open>str\<close> (\<open>None\<close> where the value is refused).
\<close>

record pylib =
  fromisoformat :: "string \<Rightarrow> datetime option"
  validate_int :: "json \<Rightarrow> int option"
  validate_str :: "json \<Rightarrow> string option"

text \<open>\<^verbatim>\<open>Optional[str]\<close> and \<^verbatim>\<open>List[str]\<close> fields.\<close>

definition validate_opt_str :: "pylib \<Rightarrow> json \<Rightarrow> string option option" where
  "validate_opt_str L v = (if v = JNull then Some None else map_option Some (validate_str L v))"

definition validate_str_list :: "pylib \<Rightarrow> json list \<Rightarrow> string list option" where
  "validate_str_list L vs = those (map (validate_str L) vs)"

fun validate_json_str_list :: "pylib \<Rightarrow> json \<Rightarrow> string list option" where
  "validate_json_str_list L (JList vs) = validate_str_list L vs"
| "validate_json_str_list L _ = None"

definition validated :: "'a option \<Rightarrow> exn + 'a" where
  "validated r = (case r of None \<Rightarrow> Inl (Exn ValidationError None) | Some x \<Rightarrow> Inr x)"

section \<open>CacheEntry and RateLimiter\<close>

text \<open>\<^verbatim>\<open>datetime.now()\<close> readings are integers, in microseconds.\<close>

record CacheEntry =
  data :: json
  expires_at :: int

definition CacheEntry_init :: "int \<Rightarrow> json \<Rightarrow> int \<Rightarrow> CacheEntry" where
  "CacheEntry_init now d ttl_seconds = \<lparr>data = d, expires_at = now + ttl_seconds * 1000000\<rparr>"

definition is_expired :: "int \<Rightarrow> CacheEntry \<Rightarrow> bool" where
  "is_expired now entry = (now > expires_at entry)"

text \<open>
  \<^verbatim>\<open>time.time()\<close> readings are reals, in seconds. \<open>acquire now\<close> is one call whose clock
  reading is \<open>now\<close>; it returns the time the call sleeps for, if it sleeps, or the
  \<^verbatim>\<open>ValueError\<close> of \<^verbatim>\<open>min\<close> on an empty list.
\<close>

record RateLimiter =
  max_requests :: int
  window_seconds :: int
  requests :: "real list"

definition RateLimiter_init :: "int \<Rightarrow> int \<Rightarrow> RateLimiter" where
  "RateLimiter_init m w = \<lparr>max_requests = m, window_seconds = w, requests = []\<rparr>"

definition acquire :: "real \<Rightarrow> RateLimiter \<Rightarrow> (exn + real option) \<times> RateLimiter" where
  "acquire now rl =
     (let reqs = filter (\<lambda>req_time. now - req_time < real_of_int (window_seconds rl)) (requests rl);
          rl1 = rl\<lparr>requests := reqs\<rparr>
      in if max_requests rl \<le> int (length reqs) then
           (if reqs = [] then (Inl (Exn ValueError None), rl1)
            else
              let oldest_request = min_list reqs;
                  wait_time = real_of_int (window_seconds rl) - (now - oldest_request)
              in (Inr (if 0 < wait_time then Some wait_time else None),
                  rl1\<lparr>requests := reqs @ [now]\<rparr>))
         else (Inr None, rl1\<lparr>requests := reqs @ [now]\<rparr>))"

section \<open>The client: state, cache and request pipeline\<close>

text \<open>Query parameters: a \<^verbatim>\<open>dict\<close> in insertion order, with integer and string values.\<close>

datatype pval = PInt int | PStr string

type_synonym params = "(string \<times> pval) list"

fun str_pval :: "pval \<Rightarrow> string" where
  "str_pval (PInt i) = str_int i"
| "str_pval (PStr s) = s"

record AsyncClient =
  base_url :: string
  headers :: "(string \<times> string) list"
  timeout :: int

text \<open>
  The service object. \<open>http_calls\<close> and \<open>sleeps\<close> are not attributes of the Python
  object: they record, in order, every \<^verbatim>\<open>client.get\<close> issued and every
  \<^verbatim>\<open>asyncio.sleep\<close> of the rate limiter.
\<close>

record ModpackService =
  api_key :: "string option"
  cache :: "string \<rightharpoonup> CacheEntry"
  rate_limiter :: RateLimiter
  client :: "AsyncClient option"
  http_calls :: "(string \<times> params) list"
  sleeps :: "real list"

definition BASE_URL :: string where
  "BASE_URL = ''https://api.curseforge.com/v1''"

definition MINECRAFT_GAME_ID :: int where
  "MINECRAFT_GAME_ID = 432"

definition MODPACK_CATEGORY_ID :: int where
  "MODPACK_CATEGORY_ID = 4471"

definition ModpackService_init :: "string option \<Rightarrow> ModpackService" where
  "ModpackService_init key =
     \<lparr>api_key = key, cache = Map.empty, rate_limiter = RateLimiter_init 100 60,
      client = None, http_calls = [], sleeps = []\<rparr>"

text \<open>\<^verbatim>\<open>__aenter__\<close>: the key header is added when \<^verbatim>\<open>self.api_key\<close> is truthy.\<close>

definition aenter :: "ModpackService \<Rightarrow> ModpackService" where
  "aenter s =
     (let headers0 = [(''Accept'', ''application/json''), (''User-Agent'', ''ContainerCraft/1.0'')];
          headers1 = (case api_key s of
                        None \<Rightarrow> headers0
                      | Some k \<Rightarrow> if k \<noteq> [] then headers0 @ [(''x-api-key'', k)] else headers0)
      in s\<lparr>client := Some \<lparr>base_url = BASE_URL, headers = headers1, timeout = 30\<rparr>\<rparr>)"

definition is_api_available :: "ModpackService \<Rightarrow> bool" where
  "is_api_available s = (api_key s \<noteq> None)"

definition get_cache_key :: "string \<Rightarrow> params \<Rightarrow> string" where
  "get_cache_key endpoint ps =
     (let param_str = py_join ''&'' (map (\<lambda>kv. fst kv @ ''='' @ str_pval (snd kv)) (sort_key fst ps))
      in endpoint @ ''?'' @ param_str)"

text \<open>
  \<open>get_cached_data now\<close>: \<open>now\<close> is the clock reading of \<^verbatim>\<open>is_expired\<close>. The result
  \<open>JNull\<close> is the \<^verbatim>\<open>None\<close> the method returns for a miss.
\<close>

definition get_cached_data :: "int \<Rightarrow> string \<Rightarrow> ModpackService \<Rightarrow> json \<times> ModpackService" where
  "get_cached_data now cache_key s =
     (case cache s cache_key of
        None \<Rightarrow> (JNull, s)
      | Some entry \<Rightarrow>
          if \<not> is_expired now entry then (data entry, s)
          else (JNull, s\<lparr>cache := (cache s)(cache_key := None)\<rparr>))"

definition cache_data :: "int \<Rightarrow> string \<Rightarrow> json \<Rightarrow> int \<Rightarrow> ModpackService \<Rightarrow> ModpackService" where
  "cache_data now cache_key d ttl_seconds s =
     s\<lparr>cache := (cache s)(cache_key \<mapsto> CacheEntry_init now d ttl_seconds)\<rparr>"

text \<open>
  What one call meets outside the process: the clock readings of the cache lookup, of
  the rate limiter and of the cache store, and what \<^verbatim>\<open>client.get\<close> does: it raises, or
  it answers with a status code and a body that decodes as JSON or does not.
\<close>

datatype http_result = Raised exc_class | Response int "json option"

record env =
  now_lookup :: int
  time_acquire :: real
  upstream :: "string \<Rightarrow> params \<Rightarrow> http_result"
  now_store :: int

definition handle_http :: "exc_class \<Rightarrow> exn" where
  "handle_http c =
     (if c = ConnectError then Exn APIConnectionError (Some (Exn c None))
      else if c = TimeoutException then Exn APIConnectionError (Some (Exn c None))
      else if c = HTTPError then Exn ModpackServiceError (Some (Exn c None))
      else Exn c None)"

definition make_request ::
  "env \<Rightarrow> string \<Rightarrow> params option \<Rightarrow> ModpackService \<Rightarrow> (exn + json) \<times> ModpackService" where
  "make_request ev endpoint params_opt s =
     (if client s = None then (Inl (Exn ModpackServiceError None), s)
      else
        let ps = (case params_opt of None \<Rightarrow> [] | Some p \<Rightarrow> p);
            cache_key = get_cache_key endpoint ps;
            (cached_data, s1) = get_cached_data (now_lookup ev) cache_key s
        in if cached_data \<noteq> JNull then (Inr cached_data, s1)
           else
             (case acquire (time_acquire ev) (rate_limiter s1) of
                (Inl e, rl) \<Rightarrow> (Inl e, s1\<lparr>rate_limiter := rl\<rparr>)
              | (Inr w, rl) \<Rightarrow>
                  let s2 = s1\<lparr>rate_limiter := rl,
                              sleeps := sleeps s1 @ (case w of None \<Rightarrow> [] | Some d \<Rightarrow> [d]),
                              http_calls := http_calls s1 @ [(endpoint, ps)]\<rparr>
                  in (case upstream ev endpoint ps of
                        Raised c \<Rightarrow> (Inl (handle_http c), s2)
                      | Response status_code body \<Rightarrow>
                          if status_code = 429 then (Inl (Exn APIRateLimitError None), s2)
                          else if status_code = 404 then (Inl (Exn ModpackNotFoundError None), s2)
                          else if status_code \<ge> 400 then (Inl (Exn ModpackServiceError None), s2)
                          else
                            (case body of
                               None \<Rightarrow> (Inl (Exn JSONDecodeError None), s2)
                             | Some d \<Rightarrow> (Inr d, cache_data (now_store ev) cache_key d 300 s2)))))"

section \<open>Response normalizers\<close>

text \<open>\<^verbatim>\<open>[x.get(k, d) for x in mod_data.get(field, [])]\<close>\<close>

definition get_each :: "json \<Rightarrow> string \<Rightarrow> string \<Rightarrow> json \<Rightarrow> exn + json list" where
  "get_each mod_data field k d =
     bindE (py_get mod_data field (JList [])) (\<lambda>src.
     bindE (py_iter src) (\<lambda>items.
     mapE (\<lambda>item. py_get item k d) items))"

text \<open>
  \<^verbatim>\<open>datetime.fromisoformat(mod_data["dateModified"].replace("Z", "+00:00"))
  if mod_data.get("dateModified") else None\<close>
\<close>

definition parse_iso :: "pylib \<Rightarrow> json \<Rightarrow> exn + datetime" where
  "parse_iso L raw =
     bindE (py_replace_Z raw) (\<lambda>str.
       case fromisoformat L str of None \<Rightarrow> Inl (Exn ValueError None) | Some t \<Rightarrow> Inr t)"

definition date_modified :: "pylib \<Rightarrow> json \<Rightarrow> exn + datetime option" where
  "date_modified L mod_data =
     bindE (py_get mod_data ''dateModified'' JNull) (\<lambda>c.
       if truthy c then
         bindE (py_getitem mod_data ''dateModified'') (\<lambda>raw.
         bindE (parse_iso L raw) (\<lambda>t. Inr (Some t)))
       else Inr None)"

definition parse_modpack_search_result :: "pylib \<Rightarrow> json \<Rightarrow> exn + ModpackSearchResult" where
  "parse_modpack_search_result L mod_data =
     bindE (py_getitem mod_data ''id'') (\<lambda>a_id.
     bindE (py_getitem mod_data ''name'') (\<lambda>a_name.
     bindE (py_get mod_data ''summary'' (JStr [])) (\<lambda>a_summary.
     bindE (py_get mod_data ''downloadCount'' (JInt 0)) (\<lambda>a_download_count.
     bindE (get_each mod_data ''categories'' ''name'' (JStr [])) (\<lambda>a_categories.
     bindE (get_each mod_data ''authors'' ''name'' (JStr [])) (\<lambda>a_authors.
     bindE (bindE (py_get mod_data ''logo'' (JObj [])) (\<lambda>logo. py_get logo ''url'' JNull)) (\<lambda>a_logo_url.
     bindE (date_modified L mod_data) (\<lambda>a_last_updated.
     validated (do {
       v1 \<leftarrow> validate_int L a_id;
       v2 \<leftarrow> validate_str L a_name;
       v3 \<leftarrow> validate_str L a_summary;
       v4 \<leftarrow> validate_int L a_download_count;
       v5 \<leftarrow> validate_str_list L a_categories;
       v6 \<leftarrow> validate_str_list L a_authors;
       v7 \<leftarrow> validate_opt_str L a_logo_url;
       Some \<lparr>id_s = v1, name_s = v2, summary_s = v3, download_count_s = v4,
             categories_s = v5, authors_s = v6, logo_url_s = v7,
             last_updated_s = a_last_updated\<rparr>
     })))))))))"

text \<open>\<^verbatim>\<open>mod_data.get("latestFilesIndexes", [{}])[0].get(k)\<close>\<close>

definition latest_index :: "json \<Rightarrow> string \<Rightarrow> exn + json" where
  "latest_index mod_data k =
     bindE (py_get mod_data ''latestFilesIndexes'' (JList [JObj []])) (\<lambda>idx.
     bindE (py_index0 idx) (\<lambda>first. py_get first k JNull))"

definition parse_modpack_details :: "pylib \<Rightarrow> json \<Rightarrow> exn + ModpackDetails" where
  "parse_modpack_details L mod_data =
     bindE (py_getitem mod_data ''id'') (\<lambda>a_id.
     bindE (py_getitem mod_data ''name'') (\<lambda>a_name.
     bindE (py_get mod_data ''summary'' (JStr [])) (\<lambda>a_summary.
     bindE (py_get mod_data ''description'' (JStr [])) (\<lambda>a_description.
     bindE (py_get mod_data ''downloadCount'' (JInt 0)) (\<lambda>a_download_count.
     bindE (get_each mod_data ''categories'' ''name'' (JStr [])) (\<lambda>a_categories.
     bindE (get_each mod_data ''authors'' ''name'' (JStr [])) (\<lambda>a_authors.
     bindE (bindE (py_get mod_data ''logo'' (JObj [])) (\<lambda>logo. py_get logo ''url'' JNull)) (\<lambda>a_logo_url.
     bindE (get_each mod_data ''screenshots'' ''url'' (JStr [])) (\<lambda>a_screenshots.
     bindE (date_modified L mod_data) (\<lambda>a_last_updated.
     bindE (latest_index mod_data ''gameVersion'') (\<lambda>a_game_version_latest.
     bindE (latest_index mod_data ''modLoader'') (\<lambda>a_mod_loader.
     validated (do {
       v1 \<leftarrow> validate_int L a_id;
       v2 \<leftarrow> validate_str L a_name;
       v3 \<leftarrow> validate_str L a_summary;
       v4 \<leftarrow> validate_str L a_description;
       v5 \<leftarrow> validate_int L a_download_count;
       v6 \<leftarrow> validate_str_list L a_categories;
       v7 \<leftarrow> validate_str_list L a_authors;
       v8 \<leftarrow> validate_opt_str L a_logo_url;
       v9 \<leftarrow> validate_str_list L a_screenshots;
       v10 \<leftarrow> validate_opt_str L a_game_version_latest;
       v11 \<leftarrow> validate_opt_str L a_mod_loader;
       Some \<lparr>id_d = v1, name_d = v2, summary_d = v3, description_d = v4,
             download_count_d = v5, categories_d = v6, authors_d = v7, logo_url_d = v8,
             screenshots_d = v9, last_updated_d = a_last_updated,
             game_version_latest_d = v10, mod_loader_d = v11\<rparr>
     })))))))))))))"

definition parse_modpack_version :: "pylib \<Rightarrow> json \<Rightarrow> exn + ModpackVersion" where
  "parse_modpack_version L file_data =
     bindE (py_getitem file_data ''id'') (\<lambda>a_id.
     bindE (py_getitem file_data ''displayName'') (\<lambda>a_display_name.
     bindE (py_getitem file_data ''fileName'') (\<lambda>a_file_name.
     bindE (bindE (py_getitem file_data ''fileDate'') (parse_iso L)) (\<lambda>a_file_date.
     bindE (py_get file_data ''downloadUrl'' (JStr [])) (\<lambda>a_download_url.
     bindE (py_get file_data ''gameVersions'' (JList [])) (\<lambda>a_game_versions.
     bindE (py_get file_data ''modLoader'' JNull) (\<lambda>a_mod_loader.
     bindE (py_get file_data ''fileLength'' (JInt 0)) (\<lambda>a_file_size.
     validated (do {
       v1 \<leftarrow> validate_int L a_id;
       v2 \<leftarrow> validate_str L a_display_name;
       v3 \<leftarrow> validate_str L a_file_name;
       v4 \<leftarrow> validate_str L a_download_url;
       v5 \<leftarrow> validate_json_str_list L a_game_versions;
       v6 \<leftarrow> validate_opt_str L a_mod_loader;
       v7 \<leftarrow> validate_int L a_file_size;
       Some \<lparr>id_v = v1, display_name = v2, file_name = v3, file_date = a_file_date,
             download_url = v4, game_versions = v5, mod_loader_v = v6, file_size = v7\<rparr>
     })))))))))"

section \<open>Fallback suggestions\<close>

record fallback_pack =
  name :: string
  description :: string
  game_version :: string
  mod_loader :: string
  instructions :: string
  estimated_size :: string
  difficulty :: string

definition popular_modpacks :: "fallback_pack list" where
  "popular_modpacks =
     [\<lparr>name = ''All The Mods 9'',
       description = ''Kitchen sink modpack with tons of mods'',
       game_version = ''1.20.1'', mod_loader = ''Forge'',
       instructions = ''Visit CurseForge or ATLauncher to download'',
       estimated_size = ''~500MB'', difficulty = ''Advanced''\<rparr>,
      \<lparr>name = ''FTB Skies'',
       description = ''Skyblock-style modpack with quests'',
       game_version = ''1.19.2'', mod_loader = ''Forge'',
       instructions = ''Available on FTB App or CurseForge'',
       estimated_size = ''~300MB'', difficulty = ''Intermediate''\<rparr>,
      \<lparr>name = ''Better Minecraft'',
       description = ''Enhanced vanilla experience with performance mods'',
       game_version = ''1.20.1'', mod_loader = ''Fabric'',
       instructions = ''Download from CurseForge or Modrinth'',
       estimated_size = ''~200MB'', difficulty = ''Beginner''\<rparr>,
      \<lparr>name = ''Create: Above and Beyond'',
       description = ''Tech modpack focused on Create mod'',
       game_version = ''1.16.5'', mod_loader = ''Forge'',
       instructions = ''Available on CurseForge'',
       estimated_size = ''~400MB'', difficulty = ''Intermediate''\<rparr>,
      \<lparr>name = ''Enigmatica 6'',
       description = ''Expert-style kitchen sink modpack'',
       game_version = ''1.16.5'', mod_loader = ''Forge'',
       instructions = ''Download from CurseForge'',
       estimated_size = ''~600MB'', difficulty = ''Expert''\<rparr>]"

definition pack_matches :: "string \<Rightarrow> fallback_pack \<Rightarrow> bool" where
  "pack_matches search_lower pack =
     (sublist search_lower (lower (name pack)) \<or> sublist search_lower (lower (description pack)))"

definition search_fallback_modpacks :: "string \<Rightarrow> fallback_pack list" where
  "search_fallback_modpacks search_term =
     (if search_term \<noteq> [] then filter (pack_matches (lower search_term)) popular_modpacks
      else popular_modpacks)"

text \<open>
  The conversion loop over \<^verbatim>\<open>enumerate(fallback_results[:page_size])\<close>, which
  \<^verbatim>\<open>search_modpacks\<close> writes out twice, word for word.
\<close>

definition fallback_result :: "nat \<times> fallback_pack \<Rightarrow> ModpackSearchResult" where
  "fallback_result ip =
     \<lparr>id_s = 1000000 + int (fst ip), name_s = name (snd ip), summary_s = description (snd ip),
      download_count_s = 0, categories_s = [difficulty (snd ip)], authors_s = [''Community''],
      logo_url_s = None, last_updated_s = None\<rparr>"

definition fallback_modpacks :: "string \<Rightarrow> int \<Rightarrow> ModpackSearchResult list" where
  "fallback_modpacks search_term page_size =
     map fallback_result (enumerate 0 (py_slice_to page_size (search_fallback_modpacks search_term)))"

section \<open>Public operations\<close>

text \<open>
  \<^verbatim>\<open>if category_filter and category_filter.lower() not in
  [cat.lower() for cat in modpack.categories]: continue\<close>
\<close>

definition filtered_out :: "string option \<Rightarrow> ModpackSearchResult \<Rightarrow> bool" where
  "filtered_out category_filter modpack =
     (case category_filter of
        None \<Rightarrow> False
      | Some cf \<Rightarrow> cf \<noteq> [] \<and> lower cf \<notin> set (map lower (categories_s modpack)))"

text \<open>
  The loop over the search response. The handler of a record that failed to parse logs
  \<^verbatim>\<open>mod_data.get('id', 'unknown')\<close>; where that call raises, the exception leaves the loop.
\<close>

fun search_loop ::
  "pylib \<Rightarrow> string option \<Rightarrow> json list \<Rightarrow> ModpackSearchResult list \<Rightarrow> exn + ModpackSearchResult list" where
  "search_loop L category_filter [] modpacks = Inr modpacks"
| "search_loop L category_filter (mod_data # rest) modpacks =
     (case parse_modpack_search_result L mod_data of
        Inr modpack \<Rightarrow>
          if filtered_out category_filter modpack then search_loop L category_filter rest modpacks
          else search_loop L category_filter rest (modpacks @ [modpack])
      | Inl e \<Rightarrow>
          (case py_get mod_data ''id'' (JStr ''unknown'') of
             Inl e' \<Rightarrow> Inl (Exn (cls e') (Some e))
           | Inr logged \<Rightarrow> search_loop L category_filter rest modpacks))"

definition search_params :: "string \<Rightarrow> string \<Rightarrow> string \<Rightarrow> int \<Rightarrow> int \<Rightarrow> params" where
  "search_params search_term sort_field sort_order page_size index =
     [(''gameId'', PInt MINECRAFT_GAME_ID),
      (''categoryId'', PInt MODPACK_CATEGORY_ID),
      (''sortField'', PStr sort_field),
      (''sortOrder'', PStr sort_order),
      (''pageSize'', PInt (min page_size 50)),
      (''index'', PInt index)]
     @ (if search_term \<noteq> [] then [(''searchFilter'', PStr search_term)] else [])"

definition search_modpacks ::
  "pylib \<Rightarrow> env \<Rightarrow> string \<Rightarrow> string option \<Rightarrow> string \<Rightarrow> string \<Rightarrow> int \<Rightarrow> int \<Rightarrow> ModpackService
     \<Rightarrow> (exn + ModpackSearchResult list) \<times> ModpackService" where
  "search_modpacks L ev search_term category_filter sort_field sort_order page_size index s =
     (if \<not> is_api_available s then (Inr (fallback_modpacks search_term page_size), s)
      else
        (case make_request ev ''/mods/search''
                (Some (search_params search_term sort_field sort_order page_size index)) s of
           (r, s') \<Rightarrow>
             (case bindE r (\<lambda>response.
                   bindE (py_get response ''data'' (JList [])) (\<lambda>d.
                   bindE (py_iter d) (\<lambda>items. search_loop L category_filter items []))) of
                Inr modpacks \<Rightarrow> (Inr modpacks, s')
              | Inl e \<Rightarrow> (Inr (fallback_modpacks search_term page_size), s'))))"

text \<open>
  \<^verbatim>\<open>get_modpack_details\<close>: \<^verbatim>\<open>except ModpackNotFoundError: raise\<close>, then
  \<^verbatim>\<open>except Exception as e: raise ModpackServiceError(...)\<close>.
\<close>

definition get_modpack_details ::
  "pylib \<Rightarrow> env \<Rightarrow> int \<Rightarrow> ModpackService \<Rightarrow> (exn + ModpackDetails) \<times> ModpackService" where
  "get_modpack_details L ev modpack_id s =
     (case make_request ev (''/mods/'' @ str_int modpack_id) None s of
        (r, s') \<Rightarrow>
          (case bindE r (\<lambda>response.
                bindE (py_get response ''data'' JNull) (\<lambda>mod_data.
                  if \<not> truthy mod_data then Inl (Exn ModpackNotFoundError None)
                  else parse_modpack_details L mod_data)) of
             Inr modpack \<Rightarrow> (Inr modpack, s')
           | Inl e \<Rightarrow>
               if cls e = ModpackNotFoundError then (Inl e, s')
               else (Inl (Exn ModpackServiceError (Some e)), s')))"

text \<open>The loop over the files of \<^verbatim>\<open>get_modpack_versions\<close>, with the same handler.\<close>

fun versions_loop :: "pylib \<Rightarrow> json list \<Rightarrow> ModpackVersion list \<Rightarrow> exn + ModpackVersion list" where
  "versions_loop L [] versions = Inr versions"
| "versions_loop L (file_data # rest) versions =
     (case parse_modpack_version L file_data of
        Inr version \<Rightarrow> versions_loop L rest (versions @ [version])
      | Inl e \<Rightarrow>
          (case py_get file_data ''id'' (JStr ''unknown'') of
             Inl e' \<Rightarrow> Inl (Exn (cls e') (Some e))
           | Inr logged \<Rightarrow> versions_loop L rest versions))"

text \<open>
  \<^verbatim>\<open>versions.sort(key=lambda v: v.file_date, reverse=True)\<close>: a stable sort that keeps
  records of equal date in their order; comparing a naive with an aware \<^verbatim>\<open>datetime\<close>
  raises \<^verbatim>\<open>TypeError\<close>.
\<close>

definition sort_newest_first :: "ModpackVersion list \<Rightarrow> exn + ModpackVersion list" where
  "sort_newest_first versions =
     (if list_all (\<lambda>v. is_aware (file_date v)) versions
         \<or> list_all (\<lambda>v. \<not> is_aware (file_date v)) versions
      then Inr (rev (sort_key (\<lambda>v. instant (file_date v)) (rev versions)))
      else Inl (Exn TypeError None))"

definition versions_params :: "string option \<Rightarrow> params" where
  "versions_params game_version_filter =
     (case game_version_filter of
        None \<Rightarrow> []
      | Some g \<Rightarrow> if g \<noteq> [] then [(''gameVersion'', PStr g)] else [])"

definition get_modpack_versions ::
  "pylib \<Rightarrow> env \<Rightarrow> int \<Rightarrow> string option \<Rightarrow> ModpackService
     \<Rightarrow> (exn + ModpackVersion list) \<times> ModpackService" where
  "get_modpack_versions L ev modpack_id game_version_filter s =
     (case make_request ev (''/mods/'' @ str_int modpack_id @ ''/files'')
             (Some (versions_params game_version_filter)) s of
        (r, s') \<Rightarrow>
          (case bindE r (\<lambda>response.
                bindE (py_get response ''data'' (JList [])) (\<lambda>files_data.
                  if \<not> truthy files_data then Inr []
                  else
                    bindE (py_iter files_data) (\<lambda>items.
                    bindE (versions_loop L items []) sort_newest_first))) of
             Inr versions \<Rightarrow> (Inr versions, s')
           | Inl e \<Rightarrow> (Inl (Exn ModpackServiceError (Some e)), s')))"

section \<open>Vocabulary of the statements\<close>







section \<open>A library instance for concrete evaluations\<close>

text \<open>
  Where a property is evaluated on concrete records, the library is this instance:
  \<^verbatim>\<open>fromisoformat\<close> knows three date strings with an offset (the first is the date of
  the module's unit tests, with \<open>Z\<close> already replaced) and one without, an \<^verbatim>\<open>int\<close> field
  takes a JSON integer and a \<^verbatim>\<open>str\<close> field a JSON string.
\<close>

definition test_lib :: pylib where
  "test_lib =
     \<lparr>fromisoformat = (\<lambda>str.
        if str = ''2024-01-15T10:30:00+00:00'' then Some (Aware 1705314600000000)
        else if str = ''2024-02-15T10:30:00+00:00'' then Some (Aware 1707993000000000)
        else if str = ''2024-03-15T10:30:00+00:00'' then Some (Aware 1710498600000000)
        else if str = ''2024-01-15T10:30:00'' then Some (Naive 1705314600000000)
        else None),
      validate_int = (\<lambda>v. case v of JInt n \<Rightarrow> Some n | _ \<Rightarrow> None),
      validate_str = (\<lambda>v. case v of JStr str \<Rightarrow> Some str | _ \<Rightarrow> None)\<rparr>"

text \<open>
  Concrete inputs: a client with a credential after \<^verbatim>\<open>__aenter__\<close>; an outside world
  whose clocks read 0 and whose upstream gives one answer to every request; a file
  record with the required fields only, and the version it normalizes to.
\<close>

definition test_service :: ModpackService where
  "test_service = aenter (ModpackService_init (Some ''test_key''))"

definition answering :: "http_result \<Rightarrow> env" where
  "answering r = \<lparr>now_lookup = 0, time_acquire = 0, upstream = (\<lambda>endpoint ps. r), now_store = 0\<rparr>"



text \<open>The search record of the module's unit tests, and what it normalizes to.\<close>

definition mock_search_data :: json where
  "mock_search_data =
     JObj [(''id'', JInt 123456), (''name'', JStr ''Test Modpack''),
           (''summary'', JStr ''A test modpack''), (''downloadCount'', JInt 50000),
           (''categories'', JList [JObj [(''name'', JStr ''Technology'')],
                                   JObj [(''name'', JStr ''Adventure'')]]),
           (''authors'', JList [JObj [(''name'', JStr ''TestAuthor'')]]),
           (''logo'', JObj [(''url'', JStr ''https://example.com/logo.png'')]),
           (''dateModified'', JStr ''2024-01-15T10:30:00Z'')]"

definition mock_search_result :: ModpackSearchResult where
  "mock_search_result =
     \<lparr>id_s = 123456, name_s = ''Test Modpack'', summary_s = ''A test modpack'',
      download_count_s = 50000, categories_s = [''Technology'', ''Adventure''],
      authors_s = [''TestAuthor''], logo_url_s = Some ''https://example.com/logo.png'',
      last_updated_s = Some (Aware 1705314600000000)\<rparr>"

section \<open>Cache keys\<close>

lemma sort_key_fst_unique:
  assumes "distinct (map fst P1)" and "distinct (map fst P2)" and "set P1 = set P2"
  shows "sort_key fst P1 = sort_key fst P2"
proof (rule map_sorted_distinct_set_unique [where f = fst])
  from assms(1) have "inj_on fst (set P1)"
    by (simp add: distinct_map)
  with assms(3) show "inj_on fst (set (sort_key fst P1) \<union> set (sort_key fst P2))"
    by simp
  show "sorted (map fst (sort_key fst P1))" by simp
  show "sorted (map fst (sort_key fst P2))" by simp
  show "distinct (map fst (sort_key fst P1))"
    using assms(1) by (simp add: distinct_map)
  show "distinct (map fst (sort_key fst P2))"
    using assms(2) by (simp add: distinct_map)
  show "set (sort_key fst P1) = set (sort_key fst P2)"
    using assms(3) by simp
qed

text \<open>
  Claim C9. A parameter mapping is a \<^verbatim>\<open>dict\<close>: a list of (name, value) pairs in insertion
  order whose names are distinct. Two mappings with the same set of pairs get the same
  cache key for every endpoint, whatever their insertion orders: the key joins the
  endpoint with the pairs sorted by name, and that sorted list is a rearrangement of the
  mapping.
\<close>

theorem get_cache_key_deterministic:
  assumes "distinct (map fst P1)" and "distinct (map fst P2)" and "set P1 = set P2"
  shows "get_cache_key endpoint P1 = get_cache_key endpoint P2
         \<and> sorted (map fst (sort_key fst P1))
         \<and> mset (sort_key fst P1) = mset P1"
proof -
  have "get_cache_key endpoint P1 = get_cache_key endpoint P2"
    using sort_key_fst_unique [OF assms] by (simp add: get_cache_key_def)
  moreover have "sorted (map fst (sort_key fst P1))" by simp
  moreover have "mset (sort_key fst P1) = mset P1" by simp
  ultimately show ?thesis by blast
qed

theorem get_cache_key_deterministic_witness:
  "distinct (map fst [(''param2'', PStr ''value2''), (''param1'', PInt 7)])
   \<and> distinct (map fst [(''param1'', PInt 7), (''param2'', PStr ''value2'')])
   \<and> set [(''param2'', PStr ''value2''), (''param1'', PInt 7)]
       = set [(''param1'', PInt 7), (''param2'', PStr ''value2'')]
   \<and> get_cache_key ''/test'' [(''param2'', PStr ''value2''), (''param1'', PInt 7)]
       = get_cache_key ''/test'' [(''param1'', PInt 7), (''param2'', PStr ''value2'')]
   \<and> get_cache_key ''/test'' [(''param2'', PStr ''value2''), (''param1'', PInt 7)]
       = ''/test?param1=7&param2=value2''"
proof -
  have d1: "distinct (map fst [(''param2'', PStr ''value2''), (''param1'', PInt 7)])" by simp
  have d2: "distinct (map fst [(''param1'', PInt 7), (''param2'', PStr ''value2'')])" by simp
  have e: "set [(''param2'', PStr ''value2''), (''param1'', PInt 7)]
       = set [(''param1'', PInt 7), (''param2'', PStr ''value2'')]" by auto
  have v: "get_cache_key ''/test'' [(''param1'', PInt 7), (''param2'', PStr ''value2'')]
       = ''/test?param1=7&param2=value2''"
    by (simp add: get_cache_key_def str_int_def digits.simps)
  from get_cache_key_deterministic [OF d1 d2 e, of "''/test''"] d1 d2 e v show ?thesis
    by simp
qed

section \<open>Cache expiry\<close>

text \<open>
  Claim C3. The cache never serves a stale value. A lookup at clock reading \<open>now\<close> that
  returns a payload (not \<^verbatim>\<open>None\<close>) returns the payload of a stored entry with
  \<open>now \<le> expires_at\<close>; a lookup of an entry whose expiry has passed returns \<^verbatim>\<open>None\<close> and
  leaves the key removed from the store; an entry stored with \<open>ttl = 0\<close> at \<open>t0\<close> is
  absent at every later reading; an entry stored with \<open>ttl = 60\<close> is returned, and kept, at
  every reading up to 60 seconds after storage.
\<close>

theorem cache_lookup_fresh:
  "(fst (get_cached_data now k s) \<noteq> JNull \<longrightarrow>
      (\<exists>e. cache s k = Some e \<and> data e = fst (get_cached_data now k s) \<and> now \<le> expires_at e))
   \<and> (cache s k = Some e \<and> expires_at e < now \<longrightarrow>
        fst (get_cached_data now k s) = JNull \<and> cache (snd (get_cached_data now k s)) k = None)
   \<and> (t0 < t \<longrightarrow> fst (get_cached_data t k (cache_data t0 k d 0 s)) = JNull)
   \<and> (t \<le> t0 + 60000000 \<longrightarrow>
        get_cached_data t k (cache_data t0 k d 60 s) = (d, cache_data t0 k d 60 s))"
  by (auto simp: get_cached_data_def cache_data_def is_expired_def CacheEntry_init_def
           split: option.splits if_splits)

theorem cache_lookup_fresh_witness:
  "fst (get_cached_data 5 ''k'' (cache_data 0 ''k'' (JStr ''test_data'') 60 (ModpackService_init None))) \<noteq> JNull
   \<and> (\<exists>e. cache (cache_data 0 ''k'' (JStr ''test_data'') 60 (ModpackService_init None)) ''k'' = Some e
          \<and> data e = JStr ''test_data'' \<and> 5 \<le> expires_at e)
   \<and> cache (cache_data 0 ''k'' (JStr ''old_data'') 0 (ModpackService_init None)) ''k''
        = Some \<lparr>data = JStr ''old_data'', expires_at = 0\<rparr>
   \<and> expires_at \<lparr>data = JStr ''old_data'', expires_at = 0\<rparr> < (1::int)
   \<and> cache (snd (get_cached_data 1 ''k'' (cache_data 0 ''k'' (JStr ''old_data'') 0 (ModpackService_init None)))) ''k'' = None
   \<and> (0::int) < 1
   \<and> fst (get_cached_data 1 ''k'' (cache_data 0 ''k'' (JStr ''old_data'') 0 (ModpackService_init None))) = JNull
   \<and> (5::int) \<le> 0 + 60000000
   \<and> get_cached_data 5 ''k'' (cache_data 0 ''k'' (JStr ''test_data'') 60 (ModpackService_init None))
        = (JStr ''test_data'', cache_data 0 ''k'' (JStr ''test_data'') 60 (ModpackService_init None))"
proof -
  let ?init0 = "ModpackService_init None"
  let ?fresh = "cache_data 0 ''k'' (JStr ''test_data'') 60 ?init0"
  let ?stale = "cache_data 0 ''k'' (JStr ''old_data'') 0 ?init0"
  have c0: "cache ?stale ''k'' = Some \<lparr>data = JStr ''old_data'', expires_at = 0\<rparr>"
    by (simp add: cache_data_def CacheEntry_init_def)
  have r: "get_cached_data 5 ''k'' ?fresh = (JStr ''test_data'', ?fresh)"
    using cache_lookup_fresh [where t = 5 and ?t0.0 = 0 and k = "''k''"
        and d = "JStr ''test_data''" and s = ?init0]
    by simp
  have a: "\<exists>e. cache ?fresh ''k'' = Some e \<and> data e = JStr ''test_data'' \<and> 5 \<le> expires_at e"
    using cache_lookup_fresh [where now = 5 and k = "''k''" and s = ?fresh] r by simp
  have b: "cache (snd (get_cached_data 1 ''k'' ?stale)) ''k'' = None"
    using cache_lookup_fresh [where now = 1 and k = "''k''" and s = ?stale
        and e = "\<lparr>data = JStr ''old_data'', expires_at = 0\<rparr>"] c0
    by simp
  have c: "fst (get_cached_data 1 ''k'' ?stale) = JNull"
    using cache_lookup_fresh [where t = 1 and ?t0.0 = 0 and k = "''k''"
        and d = "JStr ''old_data''" and s = ?init0]
    by simp
  from r a b c c0 show ?thesis by simp
qed

section \<open>The rate limiter\<close>

text \<open>
  Claim C1, evaluated where the code departs from it. A limiter of one request per 60
  seconds is called at clock readings 0, 1 and 60. The second call sleeps 59 seconds,
  as the claim says, but appends its own reading 1 next to the admission recorded at 0:
  two recorded admissions one second apart. The third call, issued when the second has
  slept, finds the entry 1 still in its window and sleeps one second only: it proceeds
  at 61, one second after the second call proceeded at 60.
\<close>

theorem acquire_overadmits:
  "acquire 0 (RateLimiter_init 1 60)
     = (Inr None, \<lparr>max_requests = 1, window_seconds = 60, requests = [0]\<rparr>)
   \<and> acquire 1 \<lparr>max_requests = 1, window_seconds = 60, requests = [0]\<rparr>
     = (Inr (Some 59), \<lparr>max_requests = 1, window_seconds = 60, requests = [0, 1]\<rparr>)
   \<and> acquire 60 \<lparr>max_requests = 1, window_seconds = 60, requests = [0, 1]\<rparr>
     = (Inr (Some 1), \<lparr>max_requests = 1, window_seconds = 60, requests = [1, 60]\<rparr>)"
  by (simp add: acquire_def RateLimiter_init_def Let_def)

section \<open>Credential presence\<close>

text \<open>
  Claim C10. For a client constructed with the empty string as credential,
  \<^verbatim>\<open>is_api_available\<close> is true and a search issues the upstream request (without a
  credential it issues none), while the session built on entry carries the two fixed
  headers and no \<^verbatim>\<open>x-api-key\<close> header (a non-empty credential gets one).
\<close>

theorem empty_credential_inconsistent:
  "is_api_available (ModpackService_init (Some []))
   \<and> client (aenter (ModpackService_init (Some [])))
       = Some \<lparr>base_url = BASE_URL,
               headers = [(''Accept'', ''application/json''), (''User-Agent'', ''ContainerCraft/1.0'')],
               timeout = 30\<rparr>
   \<and> map_of [(''Accept'', ''application/json''), (''User-Agent'', ''ContainerCraft/1.0'')] ''x-api-key'' = None
   \<and> http_calls (snd (search_modpacks L ev search_term category_filter sort_field sort_order page_size index
                        (aenter (ModpackService_init (Some [])))))
       = [(''/mods/search'', search_params search_term sort_field sort_order page_size index)]
   \<and> http_calls (snd (search_modpacks L ev search_term category_filter sort_field sort_order page_size index
                        (aenter (ModpackService_init None)))) = []
   \<and> client (aenter (ModpackService_init (Some ''key'')))
       = Some \<lparr>base_url = BASE_URL,
               headers = [(''Accept'', ''application/json''), (''User-Agent'', ''ContainerCraft/1.0''),
                          (''x-api-key'', ''key'')],
               timeout = 30\<rparr>"
proof -
  let ?svc = "aenter (ModpackService_init (Some []))"
  let ?p = "search_params search_term sort_field sort_order page_size index"
  have mr: "http_calls (snd (make_request ev ''/mods/search'' (Some ?p) ?svc)) = [(''/mods/search'', ?p)]"
    by (simp add: make_request_def aenter_def ModpackService_init_def get_cached_data_def
          acquire_def RateLimiter_init_def cache_data_def Let_def
          split: http_result.splits option.splits)
  have "http_calls (snd (search_modpacks L ev search_term category_filter sort_field sort_order page_size index ?svc))
          = http_calls (snd (make_request ev ''/mods/search'' (Some ?p) ?svc))"
    by (simp add: search_modpacks_def is_api_available_def aenter_def ModpackService_init_def
          split: prod.splits sum.splits)
  with mr show ?thesis
    by (simp add: is_api_available_def aenter_def ModpackService_init_def search_modpacks_def)
qed

section \<open>Error propagation of the lookups\<close>

text \<open>
  Claim C2, evaluated where the code departs from it. The upstream answers 404 to a
  client with a credential and an empty cache. \<^verbatim>\<open>get_modpack_details\<close> raises the
  not-found error itself, as the claim says. \<^verbatim>\<open>get_modpack_versions\<close> has no
  \<^verbatim>\<open>except ModpackNotFoundError: raise\<close> clause: the same not-found error reaches its
  caller wrapped in a generic \<^verbatim>\<open>ModpackServiceError\<close>.
\<close>

theorem versions_wraps_not_found:
  "fst (get_modpack_versions L
          \<lparr>now_lookup = 0, time_acquire = 0, upstream = (\<lambda>endpoint ps. Response 404 None), now_store = 0\<rparr>
          999999999 None (aenter (ModpackService_init (Some ''key''))))
     = Inl (Exn ModpackServiceError (Some (Exn ModpackNotFoundError None)))
   \<and> fst (get_modpack_details L
          \<lparr>now_lookup = 0, time_acquire = 0, upstream = (\<lambda>endpoint ps. Response 404 None), now_store = 0\<rparr>
          999999999 (aenter (ModpackService_init (Some ''key''))))
     = Inl (Exn ModpackNotFoundError None)"
  by (simp add: get_modpack_versions_def get_modpack_details_def make_request_def aenter_def
        ModpackService_init_def get_cached_data_def acquire_def RateLimiter_init_def Let_def)

section \<open>Search never raises\<close>

text \<open>
  Claim C4. With a credential configured, whenever the request pipeline of a search
  raises (a connectivity, rate-limit, generic API or any other error), the search
  returns the fallback suggestions for the same term and page size, in the state the
  failed request left; and a search returns a result list on every input.
\<close>

theorem search_absorbs_failures:
  "(is_api_available s
      \<and> fst (make_request ev ''/mods/search''
               (Some (search_params search_term sort_field sort_order page_size index)) s) = Inl e
    \<longrightarrow> search_modpacks L ev search_term category_filter sort_field sort_order page_size index s
          = (Inr (fallback_modpacks search_term page_size),
             snd (make_request ev ''/mods/search''
                    (Some (search_params search_term sort_field sort_order page_size index)) s)))
   \<and> (\<exists>ms. fst (search_modpacks L ev search_term category_filter sort_field sort_order page_size index s) = Inr ms)"
  by (auto simp: search_modpacks_def split: prod.splits sum.splits)

theorem search_absorbs_failures_witness:
  "is_api_available (aenter (ModpackService_init (Some ''key'')))
   \<and> fst (make_request
           \<lparr>now_lookup = 0, time_acquire = 0, upstream = (\<lambda>endpoint ps. Raised ConnectError), now_store = 0\<rparr>
           ''/mods/search'' (Some (search_params ''Better'' ''Popularity'' ''desc'' 20 0))
           (aenter (ModpackService_init (Some ''key''))))
       = Inl (Exn APIConnectionError (Some (Exn ConnectError None)))
   \<and> fst (search_modpacks test_lib
           \<lparr>now_lookup = 0, time_acquire = 0, upstream = (\<lambda>endpoint ps. Raised ConnectError), now_store = 0\<rparr>
           ''Better'' None ''Popularity'' ''desc'' 20 0 (aenter (ModpackService_init (Some ''key''))))
       = Inr [\<lparr>id_s = 1000000, name_s = ''Better Minecraft'',
                summary_s = ''Enhanced vanilla experience with performance mods'',
                download_count_s = 0, categories_s = [''Beginner''], authors_s = [''Community''],
                logo_url_s = None, last_updated_s = None\<rparr>]"
proof -
  let ?ev = "\<lparr>now_lookup = 0, time_acquire = 0, upstream = (\<lambda>endpoint ps. Raised ConnectError), now_store = 0\<rparr>"
  let ?svc = "aenter (ModpackService_init (Some ''key''))"
  have v: "fallback_modpacks ''Better'' 20 =
     [\<lparr>id_s = 1000000, name_s = ''Better Minecraft'',
       summary_s = ''Enhanced vanilla experience with performance mods'',
       download_count_s = 0, categories_s = [''Beginner''], authors_s = [''Community''],
       logo_url_s = None, last_updated_s = None\<rparr>]"
    by code_simp
  have a: "is_api_available ?svc"
    by (simp add: is_api_available_def aenter_def ModpackService_init_def)
  have m: "fst (make_request ?ev ''/mods/search'' (Some (search_params ''Better'' ''Popularity'' ''desc'' 20 0)) ?svc)
       = Inl (Exn APIConnectionError (Some (Exn ConnectError None)))"
    by (simp add: make_request_def aenter_def ModpackService_init_def get_cached_data_def
          acquire_def RateLimiter_init_def handle_http_def Let_def)
  from search_absorbs_failures [where s = ?svc and ev = ?ev and search_term = "''Better''"
      and sort_field = "''Popularity''" and sort_order = "''desc''" and page_size = 20 and index = 0
      and e = "Exn APIConnectionError (Some (Exn ConnectError None))" and L = test_lib
      and category_filter = None] a m v
  show ?thesis by simp
qed

section \<open>The fallback search path\<close>

lemma better_fallback:
  "fallback_modpacks ''Better'' 20 =
     [\<lparr>id_s = 1000000, name_s = ''Better Minecraft'',
       summary_s = ''Enhanced vanilla experience with performance mods'',
       download_count_s = 0, categories_s = [''Beginner''], authors_s = [''Community''],
       logo_url_s = None, last_updated_s = None\<rparr>]"
  by code_simp

lemma search_fallback_modpacks_filter:
  "search_fallback_modpacks search_term = filter (pack_matches (lower search_term)) popular_modpacks"
  by (simp add: search_fallback_modpacks_def pack_matches_def lower_def)

lemma fallback_ids:
  "map id_s (fallback_modpacks search_term page_size)
     = map (\<lambda>i. 1000000 + int i) [0..<length (fallback_modpacks search_term page_size)]"
proof -
  have h: "map id_s (map fallback_result ys) = map (\<lambda>i. 1000000 + int i) (map fst ys)"
    for ys :: "(nat \<times> fallback_pack) list"
    by (simp add: fallback_result_def comp_def)
  have "map id_s (map fallback_result (enumerate 0 xs)) = map (\<lambda>i. 1000000 + int i) [0..<length xs]"
    for xs :: "fallback_pack list"
    by (simp only: h map_fst_enumerate add_0)
  then show ?thesis by (simp add: fallback_modpacks_def)
qed

lemma fallback_names:
  "map name_s (fallback_modpacks search_term page_size)
     = map name (py_slice_to page_size (search_fallback_modpacks search_term))"
proof -
  have h: "map name_s (map fallback_result ys) = map name (map snd ys)"
    for ys :: "(nat \<times> fallback_pack) list"
    by (simp add: fallback_result_def comp_def)
  show ?thesis by (simp only: fallback_modpacks_def h map_snd_enumerate)
qed

lemma fallback_summaries:
  "map summary_s (fallback_modpacks search_term page_size)
     = map description (py_slice_to page_size (search_fallback_modpacks search_term))"
proof -
  have h: "map summary_s (map fallback_result ys) = map description (map snd ys)"
    for ys :: "(nat \<times> fallback_pack) list"
    by (simp add: fallback_result_def comp_def)
  show ?thesis by (simp only: fallback_modpacks_def h map_snd_enumerate)
qed

lemma fallback_each:
  "r \<in> set (fallback_modpacks search_term page_size) \<Longrightarrow> 1000000 \<le> id_s r \<and> authors_s r = [''Community'']"
  by (auto simp: fallback_modpacks_def fallback_result_def)

lemma fallback_length:
  "0 \<le> page_size \<Longrightarrow> length (fallback_modpacks search_term page_size) \<le> nat page_size"
  by (simp add: fallback_modpacks_def py_slice_to_def)

text \<open>
  Claim C5. The results of the fallback path have the ids 1000000, 1000001, ... in
  order, each at least 1000000, and the author placeholder \<open>Community\<close>; their names
  and summaries are those of \<^verbatim>\<open>[:page_size]\<close> of the catalog entries whose lower-cased
  name or description contains the lower-cased search term, in catalog order; for a
  page size that is not negative that slice is the first \<open>page_size\<close> entries, so the
  list is no longer than the page size; without a credential a search returns exactly
  these results and leaves the client as it was; and without a credential the search
  for \<open>Better\<close> with the default page size is not empty.
\<close>

theorem fallback_results_shape:
  "map id_s (fallback_modpacks search_term page_size)
     = map (\<lambda>i. 1000000 + int i) [0..<length (fallback_modpacks search_term page_size)]
   \<and> (\<forall>r \<in> set (fallback_modpacks search_term page_size).
         1000000 \<le> id_s r \<and> authors_s r = [''Community''])
   \<and> map name_s (fallback_modpacks search_term page_size)
       = map name (py_slice_to page_size
           (filter (\<lambda>pack. sublist (lower search_term) (lower (name pack))
                          \<or> sublist (lower search_term) (lower (description pack))) popular_modpacks))
   \<and> map summary_s (fallback_modpacks search_term page_size)
       = map description (py_slice_to page_size
           (filter (\<lambda>pack. sublist (lower search_term) (lower (name pack))
                          \<or> sublist (lower search_term) (lower (description pack))) popular_modpacks))
   \<and> (0 \<le> page_size \<longrightarrow>
         length (fallback_modpacks search_term page_size) \<le> nat page_size
         \<and> py_slice_to page_size (search_fallback_modpacks search_term)
             = take (nat page_size) (search_fallback_modpacks search_term))
   \<and> (\<not> is_api_available s \<longrightarrow>
         search_modpacks L ev search_term category_filter sort_field sort_order page_size index s
           = (Inr (fallback_modpacks search_term page_size), s))
   \<and> (\<exists>r rs. fst (search_modpacks L ev ''Better'' category_filter sort_field sort_order 20 index
                    (ModpackService_init None)) = Inr (r # rs))"
proof -
  have f: "search_fallback_modpacks search_term
             = filter (\<lambda>pack. sublist (lower search_term) (lower (name pack))
                          \<or> sublist (lower search_term) (lower (description pack))) popular_modpacks"
    using search_fallback_modpacks_filter [of search_term] by (simp add: pack_matches_def [abs_def])
  have a: "map name_s (fallback_modpacks search_term page_size)
       = map name (py_slice_to page_size
           (filter (\<lambda>pack. sublist (lower search_term) (lower (name pack))
                          \<or> sublist (lower search_term) (lower (description pack))) popular_modpacks))"
    using fallback_names [of search_term page_size] f by simp
  have b: "map summary_s (fallback_modpacks search_term page_size)
       = map description (py_slice_to page_size
           (filter (\<lambda>pack. sublist (lower search_term) (lower (name pack))
                          \<or> sublist (lower search_term) (lower (description pack))) popular_modpacks))"
    using fallback_summaries [of search_term page_size] f by simp
  have c: "0 \<le> page_size \<longrightarrow>
         length (fallback_modpacks search_term page_size) \<le> nat page_size
         \<and> py_slice_to page_size (search_fallback_modpacks search_term)
             = take (nat page_size) (search_fallback_modpacks search_term)"
    using fallback_length [of page_size search_term] by (simp add: py_slice_to_def)
  have d: "\<not> is_api_available s \<longrightarrow>
         search_modpacks L ev search_term category_filter sort_field sort_order page_size index s
           = (Inr (fallback_modpacks search_term page_size), s)"
    by (simp add: search_modpacks_def)
  have e: "\<exists>r rs. fst (search_modpacks L ev ''Better'' category_filter sort_field sort_order 20 index
                    (ModpackService_init None)) = Inr (r # rs)"
    by (simp add: search_modpacks_def is_api_available_def ModpackService_init_def better_fallback)
  from fallback_ids [of search_term page_size] fallback_each [of _ search_term page_size] a b c d e
  show ?thesis by blast
qed

theorem fallback_results_shape_witness:
  "(0::int) \<le> 20
   \<and> \<not> is_api_available (ModpackService_init None)
   \<and> search_modpacks test_lib
         \<lparr>now_lookup = 0, time_acquire = 0, upstream = (\<lambda>endpoint ps. Raised ConnectError), now_store = 0\<rparr>
         ''Better'' None ''Popularity'' ''desc'' 20 0 (ModpackService_init None)
       = (Inr [\<lparr>id_s = 1000000, name_s = ''Better Minecraft'',
                 summary_s = ''Enhanced vanilla experience with performance mods'',
                 download_count_s = 0, categories_s = [''Beginner''], authors_s = [''Community''],
                 logo_url_s = None, last_updated_s = None\<rparr>],
          ModpackService_init None)
   \<and> length (fallback_modpacks ''Better'' 20) \<le> nat 20
   \<and> map id_s (fallback_modpacks ''Better'' 20) = [1000000]
   \<and> map name_s (fallback_modpacks ''Better'' 20) = [''Better Minecraft'']"
proof -
  have v: "fallback_modpacks ''Better'' 20 =
     [\<lparr>id_s = 1000000, name_s = ''Better Minecraft'',
       summary_s = ''Enhanced vanilla experience with performance mods'',
       download_count_s = 0, categories_s = [''Beginner''], authors_s = [''Community''],
       logo_url_s = None, last_updated_s = None\<rparr>]"
    by code_simp
  have n: "\<not> is_api_available (ModpackService_init None)"
    by (simp add: is_api_available_def ModpackService_init_def)
  from fallback_results_shape [where search_term = "''Better''" and page_size = 20
      and s = "ModpackService_init None" and L = test_lib
      and ev = "\<lparr>now_lookup = 0, time_acquire = 0, upstream = (\<lambda>endpoint ps. Raised ConnectError), now_store = 0\<rparr>"
      and category_filter = None and sort_field = "''Popularity''" and sort_order = "''desc''"
      and index = 0] n v
  show ?thesis by simp
qed


section \<open>The batch loops\<close>


lemma bindE_Inl_iff: "bindE m f = Inl e \<longleftrightarrow> (m = Inl e \<or> (\<exists>x. m = Inr x \<and> f x = Inl e))"
  by (cases m) simp_all




section \<open>Version ordering\<close>










section \<open>Cache hits\<close>


lemma make_request_hit:
  assumes "client s \<noteq> None"
    and "cache s (get_cache_key endpoint ps) = Some e"
    and "now_lookup ev \<le> expires_at e"
    and "data e \<noteq> JNull"
  shows "make_request ev endpoint (Some ps) s = (Inr (data e), s)"
  using assms by (simp add: make_request_def get_cached_data_def is_expired_def)

lemma make_request_leaves_entry:
  assumes "client s \<noteq> None"
    and "make_request ev endpoint (Some ps) s = (r, s1)"
    and "cache s1 (get_cache_key endpoint ps) = Some e"
    and "data e \<noteq> JNull"
  shows "r = Inr (data e)"
  using assms
  by (auto simp: make_request_def get_cached_data_def cache_data_def CacheEntry_init_def Let_def
      split: option.splits if_splits prod.splits sum.splits http_result.splits)

lemma make_request_stores:
  assumes "client s \<noteq> None"
    and "fst (get_cached_data (now_lookup ev) (get_cache_key endpoint ps) s) = JNull"
    and "0 < max_requests (rate_limiter s)"
    and "upstream ev endpoint ps = Response status_code (Some d)"
    and "status_code < 400"
  shows "fst (make_request ev endpoint (Some ps) s) = Inr d"
    and "cache (snd (make_request ev endpoint (Some ps) s)) (get_cache_key endpoint ps)
           = Some \<lparr>data = d, expires_at = now_store ev + 300000000\<rparr>"
  using assms
  by (auto simp: make_request_def get_cached_data_def cache_data_def CacheEntry_init_def Let_def acquire_def
      split: option.splits if_splits prod.splits sum.splits)


lemma get_cached_data_frame:
  "get_cached_data now k s = (d, s1) \<Longrightarrow> client s1 = client s \<and> api_key s1 = api_key s"
  by (auto simp: get_cached_data_def split: option.splits if_splits)

lemma make_request_preserves:
  "client (snd (make_request ev endpoint po s)) = client s
   \<and> api_key (snd (make_request ev endpoint po s)) = api_key s"
proof (cases "client s = None")
  case True
  then show ?thesis by (simp add: make_request_def)
next
  case False
  obtain d s1 where g: "get_cached_data (now_lookup ev)
      (get_cache_key endpoint (case po of None \<Rightarrow> [] | Some p \<Rightarrow> p)) s = (d, s1)"
    by (cases "get_cached_data (now_lookup ev)
      (get_cache_key endpoint (case po of None \<Rightarrow> [] | Some p \<Rightarrow> p)) s") blast
  note keep = get_cached_data_frame [OF g]
  obtain r rl where a: "acquire (time_acquire ev) (rate_limiter s1) = (r, rl)"
    by (cases "acquire (time_acquire ev) (rate_limiter s1)") blast
  show ?thesis
    using False g a keep
    by (simp add: make_request_def cache_data_def Let_def
        split: sum.splits http_result.splits option.splits)
qed

lemma search_modpacks_direct:
  assumes "is_api_available s"
    and "make_request ev ''/mods/search''
           (Some (search_params search_term sort_field sort_order page_size index)) s = (r, s')"
  shows "search_modpacks L ev search_term category_filter sort_field sort_order page_size index s
           = (case bindE r (\<lambda>response.
                     bindE (py_get response ''data'' (JList [])) (\<lambda>d.
                     bindE (py_iter d) (\<lambda>items. search_loop L category_filter items []))) of
                Inr modpacks \<Rightarrow> Inr modpacks
              | Inl e \<Rightarrow> Inr (fallback_modpacks search_term page_size), s')"
  using assms by (simp add: search_modpacks_def split: sum.splits)

lemma repeated_search:
  assumes first: "search_modpacks L ev1 search_term category_filter sort_field sort_order page_size index s = (r1, s1)"
    and entry: "cache s1 (get_cache_key ''/mods/search''
                  (search_params search_term sort_field sort_order page_size index)) = Some e1"
    and payload: "data e1 \<noteq> JNull"
    and fresh: "now_lookup ev2 \<le> expires_at e1"
  shows "search_modpacks L ev2 search_term category_filter sort_field sort_order page_size index s1 = (r1, s1)"
proof (cases "is_api_available s")
  case False
  with first have "r1 = Inr (fallback_modpacks search_term page_size)" and "s1 = s"
    by (simp_all add: search_modpacks_def)
  with False show ?thesis
    by (simp add: search_modpacks_def)
next
  case True
  let ?ps = "search_params search_term sort_field sort_order page_size index"
  obtain r s' where mr: "make_request ev1 ''/mods/search'' (Some ?ps) s = (r, s')"
    by (cases "make_request ev1 ''/mods/search'' (Some ?ps) s") blast
  from first search_modpacks_direct [OF True mr, where L = L and category_filter = category_filter]
  have s1: "s1 = s'"
    and r1: "r1 = (case bindE r (\<lambda>response.
                     bindE (py_get response ''data'' (JList [])) (\<lambda>d.
                     bindE (py_iter d) (\<lambda>items. search_loop L category_filter items []))) of
                Inr modpacks \<Rightarrow> Inr modpacks
              | Inl e \<Rightarrow> Inr (fallback_modpacks search_term page_size))"
    by simp_all
  from make_request_preserves [of ev1 "''/mods/search''" "Some ?ps" s] mr s1
  have keep: "client s1 = client s" "api_key s1 = api_key s"
    by simp_all
  with True have avail: "is_api_available s1"
    by (simp add: is_api_available_def)
  show ?thesis
  proof (cases "client s = None")
    case True
    with mr have "r = Inl (Exn ModpackServiceError None)" and "s' = s"
      by (simp_all add: make_request_def)
    moreover from True keep have "make_request ev2 ''/mods/search'' (Some ?ps) s1
        = (Inl (Exn ModpackServiceError None), s1)"
      by (simp add: make_request_def)
    ultimately show ?thesis
      using search_modpacks_direct [OF avail, where ev = ev2 and search_term = search_term and sort_field = sort_field and sort_order = sort_order and page_size = page_size and index = index and L = L and category_filter = category_filter]
        r1 by simp
  next
    case False
    from make_request_leaves_entry [OF False mr] entry payload s1 have r: "r = Inr (data e1)"
      by simp
    from False keep have "client s1 \<noteq> None"
      by simp
    from make_request_hit [OF this entry fresh payload]
    have "make_request ev2 ''/mods/search'' (Some ?ps) s1 = (Inr (data e1), s1)" .
    from search_modpacks_direct [OF avail this, where L = L and category_filter = category_filter] r1 r show ?thesis
      by simp
  qed
qed

text \<open>
  Claim C7. On a cache hit (the client is open and the store holds, for the request's
  key, an entry that has not expired and whose payload is not \<^verbatim>\<open>None\<close>), the request
  returns the cached payload and leaves the whole state as it was: no admission is
  recorded by the rate limiter, nothing is slept, no GET is issued. A second, identical
  search made while the entry of the first is fresh returns the result of the first and
  changes nothing, whatever the upstream would answer. The entry a successful upstream
  call stores expires 300 seconds after the clock reading of the store.
\<close>

theorem cache_hit_skips_upstream:
  "(client s \<noteq> None \<and> cache s (get_cache_key endpoint ps) = Some e
      \<and> now_lookup ev \<le> expires_at e \<and> data e \<noteq> JNull
    \<longrightarrow> make_request ev endpoint (Some ps) s = (Inr (data e), s))
   \<and> (search_modpacks L ev1 search_term category_filter sort_field sort_order page_size index s = (r1, s1)
      \<and> cache s1 (get_cache_key ''/mods/search''
           (search_params search_term sort_field sort_order page_size index)) = Some e1
      \<and> data e1 \<noteq> JNull \<and> now_lookup ev2 \<le> expires_at e1
    \<longrightarrow> search_modpacks L ev2 search_term category_filter sort_field sort_order page_size index s1
          = (r1, s1))
   \<and> (client s \<noteq> None
      \<and> fst (get_cached_data (now_lookup ev) (get_cache_key endpoint ps) s) = JNull
      \<and> 0 < max_requests (rate_limiter s)
      \<and> upstream ev endpoint ps = Response status_code (Some d) \<and> status_code < 400
    \<longrightarrow> fst (make_request ev endpoint (Some ps) s) = Inr d
        \<and> cache (snd (make_request ev endpoint (Some ps) s)) (get_cache_key endpoint ps)
            = Some \<lparr>data = d, expires_at = now_store ev + 300000000\<rparr>)"
  using make_request_hit [of s endpoint ps e ev]
    repeated_search [of L ev1 search_term category_filter sort_field sort_order page_size index s r1 s1 e1 ev2]
    make_request_stores [of s ev endpoint ps status_code d]
  by blast

theorem cache_hit_skips_upstream_witness:
  "client test_service \<noteq> None
   \<and> fst (get_cached_data 0
           (get_cache_key ''/mods/search'' (search_params ''FTB'' ''Popularity'' ''desc'' 3 0)) test_service)
       = JNull
   \<and> 0 < max_requests (rate_limiter test_service)
   \<and> (200::int) < 400
   \<and> fst (search_modpacks test_lib
           (answering (Response 200 (Some (JObj [(''data'', JList [mock_search_data])]))))
           ''FTB'' None ''Popularity'' ''desc'' 3 0 test_service)
       = Inr [mock_search_result]
   \<and> cache (snd (search_modpacks test_lib
           (answering (Response 200 (Some (JObj [(''data'', JList [mock_search_data])]))))
           ''FTB'' None ''Popularity'' ''desc'' 3 0 test_service))
         (get_cache_key ''/mods/search'' (search_params ''FTB'' ''Popularity'' ''desc'' 3 0))
       = Some \<lparr>data = JObj [(''data'', JList [mock_search_data])], expires_at = 300000000\<rparr>
   \<and> JObj [(''data'', JList [mock_search_data])] \<noteq> JNull
   \<and> (299000000::int) \<le> 300000000
   \<and> search_modpacks test_lib
         \<lparr>now_lookup = 299000000, time_acquire = 299,
          upstream = (\<lambda>endpoint ps. Raised ConnectError), now_store = 299000000\<rparr>
         ''FTB'' None ''Popularity'' ''desc'' 3 0
         (snd (search_modpacks test_lib
           (answering (Response 200 (Some (JObj [(''data'', JList [mock_search_data])]))))
           ''FTB'' None ''Popularity'' ''desc'' 3 0 test_service))
       = (Inr [mock_search_result],
          snd (search_modpacks test_lib
           (answering (Response 200 (Some (JObj [(''data'', JList [mock_search_data])]))))
           ''FTB'' None ''Popularity'' ''desc'' 3 0 test_service))
   \<and> make_request
         \<lparr>now_lookup = 299000000, time_acquire = 299,
          upstream = (\<lambda>endpoint ps. Raised ConnectError), now_store = 299000000\<rparr>
         ''/mods/search'' (Some (search_params ''FTB'' ''Popularity'' ''desc'' 3 0))
         (snd (search_modpacks test_lib
           (answering (Response 200 (Some (JObj [(''data'', JList [mock_search_data])]))))
           ''FTB'' None ''Popularity'' ''desc'' 3 0 test_service))
       = (Inr (JObj [(''data'', JList [mock_search_data])]),
          snd (search_modpacks test_lib
           (answering (Response 200 (Some (JObj [(''data'', JList [mock_search_data])]))))
           ''FTB'' None ''Popularity'' ''desc'' 3 0 test_service))
   \<and> requests (rate_limiter (snd (search_modpacks test_lib
           (answering (Response 200 (Some (JObj [(''data'', JList [mock_search_data])]))))
           ''FTB'' None ''Popularity'' ''desc'' 3 0 test_service))) = [0]
   \<and> http_calls (snd (search_modpacks test_lib
           (answering (Response 200 (Some (JObj [(''data'', JList [mock_search_data])]))))
           ''FTB'' None ''Popularity'' ''desc'' 3 0 test_service))
       = [(''/mods/search'', search_params ''FTB'' ''Popularity'' ''desc'' 3 0)]"
proof -
  let ?resp = "JObj [(''data'', JList [mock_search_data])]"
  let ?ev1 = "answering (Response 200 (Some ?resp))"
  let ?ev2 = "\<lparr>now_lookup = 299000000, time_acquire = 299,
               upstream = (\<lambda>endpoint ps. Raised ConnectError), now_store = 299000000\<rparr>"
  let ?ps = "search_params ''FTB'' ''Popularity'' ''desc'' 3 0"
  let ?key = "get_cache_key ''/mods/search'' ?ps"
  let ?first = "search_modpacks test_lib ?ev1 ''FTB'' None ''Popularity'' ''desc'' 3 0 test_service"
  let ?entry = "\<lparr>data = ?resp, expires_at = 300000000\<rparr>"
  have cl: "client test_service \<noteq> None"
    by (simp add: test_service_def aenter_def Let_def)
  have av: "is_api_available test_service"
    by (simp add: test_service_def aenter_def is_api_available_def ModpackService_init_def Let_def)
  have miss: "fst (get_cached_data 0 ?key test_service) = JNull"
    by (simp add: get_cached_data_def test_service_def aenter_def ModpackService_init_def Let_def)
  have lim: "0 < max_requests (rate_limiter test_service)"
    by (simp add: test_service_def aenter_def ModpackService_init_def RateLimiter_init_def Let_def)
  have num: "(200::int) < 400" "(299000000::int) \<le> 300000000" "?resp \<noteq> JNull"
    by simp_all
  have clock: "now_lookup ?ev1 = 0" "now_store ?ev1 + 300000000 = 300000000"
    by (simp_all add: answering_def)
  have up: "upstream ?ev1 ''/mods/search'' ?ps = Response 200 (Some ?resp)"
    by (simp add: answering_def)
  have h3: "client test_service \<noteq> None
      \<and> fst (get_cached_data (now_lookup ?ev1) ?key test_service) = JNull
      \<and> 0 < max_requests (rate_limiter test_service)
      \<and> upstream ?ev1 ''/mods/search'' ?ps = Response 200 (Some ?resp) \<and> (200::int) < 400"
    using cl miss lim up num(1) by (simp only: clock) blast
  have stored: "fst (make_request ?ev1 ''/mods/search'' (Some ?ps) test_service) = Inr ?resp
      \<and> cache (snd (make_request ?ev1 ''/mods/search'' (Some ?ps) test_service)) ?key = Some ?entry"
    using cache_hit_skips_upstream [THEN conjunct2, THEN conjunct2, rule_format, OF h3]
    unfolding clock .
  have mr: "make_request ?ev1 ''/mods/search'' (Some ?ps) test_service
              = (Inr ?resp, snd (make_request ?ev1 ''/mods/search'' (Some ?ps) test_service))"
    using stored by (simp add: prod_eq_iff)
  have parse: "parse_modpack_search_result test_lib mock_search_data = Inr mock_search_result"
    by code_simp
  have first: "?first = (Inr [mock_search_result], snd (make_request ?ev1 ''/mods/search'' (Some ?ps) test_service))"
    unfolding search_modpacks_direct [OF av mr, where L = test_lib and category_filter = None]
    by (simp add: parse filtered_out_def)
  have res: "fst ?first = Inr [mock_search_result]"
    by (simp only: first fst_conv)
  have entry: "cache (snd ?first) ?key = Some ?entry"
    using stored by (simp only: first snd_conv)
  have h2: "?first = (fst ?first, snd ?first)
      \<and> cache (snd ?first) ?key = Some ?entry
      \<and> data ?entry \<noteq> JNull \<and> now_lookup ?ev2 \<le> expires_at ?entry"
    using entry by simp
  have second: "search_modpacks test_lib ?ev2 ''FTB'' None ''Popularity'' ''desc'' 3 0 (snd ?first)
                  = (Inr [mock_search_result], snd ?first)"
    using cache_hit_skips_upstream [THEN conjunct2, THEN conjunct1, rule_format, OF h2]
    by (simp only: res)
  have cl1: "client (snd ?first) \<noteq> None"
    using cl make_request_preserves [of ?ev1 "''/mods/search''" "Some ?ps" test_service]
    by (simp only: first snd_conv) simp
  have h1: "client (snd ?first) \<noteq> None \<and> cache (snd ?first) ?key = Some ?entry
      \<and> now_lookup ?ev2 \<le> expires_at ?entry \<and> data ?entry \<noteq> JNull"
    using cl1 entry by simp
  have hit: "make_request ?ev2 ''/mods/search'' (Some ?ps) (snd ?first) = (Inr ?resp, snd ?first)"
    using cache_hit_skips_upstream [THEN conjunct1, rule_format, OF h1] by simp
  have trace: "requests (rate_limiter (snd (make_request ?ev1 ''/mods/search'' (Some ?ps) test_service))) = [0]"
    "http_calls (snd (make_request ?ev1 ''/mods/search'' (Some ?ps) test_service)) = [(''/mods/search'', ?ps)]"
    by (simp_all add: make_request_def get_cached_data_def cache_data_def Let_def test_service_def
        aenter_def ModpackService_init_def acquire_def RateLimiter_init_def answering_def)
  have trace1: "requests (rate_limiter (snd ?first)) = [0]"
    "http_calls (snd ?first) = [(''/mods/search'', ?ps)]"
    using trace by (simp_all only: first snd_conv)
  from cl miss lim num res entry second hit trace1 show ?thesis
    by blast
qed


section \<open>Normalization and partial failure\<close>

























section \<open>What the rate limiter does guarantee\<close>

text \<open>
  A call that sleeps was blocked (at least \<open>max_requests\<close> timestamps remained after
  pruning) and sleeps exactly \<open>window_seconds - (now - oldest)\<close>, which is positive. A
  call that finds fewer than \<open>max_requests\<close> timestamps in its window does not sleep.
  Every call that returns leaves the pruned timestamps followed by its own reading. A
  limiter that holds exactly \<open>max_requests\<close> timestamps, all within the window and none
  in the future, makes the next call sleep for a time in \<open>(0, window_seconds]\<close>.
\<close>

theorem acquire_suspension:
  "(fst (acquire now rl) = Inr (Some d) \<longrightarrow>
      max_requests rl \<le> int (length (filter (\<lambda>t. now - t < real_of_int (window_seconds rl)) (requests rl)))
      \<and> d = real_of_int (window_seconds rl)
              - (now - min_list (filter (\<lambda>t. now - t < real_of_int (window_seconds rl)) (requests rl)))
      \<and> 0 < d)
   \<and> (int (length (filter (\<lambda>t. now - t < real_of_int (window_seconds rl)) (requests rl))) < max_requests rl \<longrightarrow>
      acquire now rl
        = (Inr None,
           rl\<lparr>requests := filter (\<lambda>t. now - t < real_of_int (window_seconds rl)) (requests rl) @ [now]\<rparr>))
   \<and> (fst (acquire now rl) = Inr w \<longrightarrow>
      requests (snd (acquire now rl))
        = filter (\<lambda>t. now - t < real_of_int (window_seconds rl)) (requests rl) @ [now])
   \<and> (requests rl \<noteq> [] \<and> int (length (requests rl)) = max_requests rl
        \<and> list_all (\<lambda>t. t \<le> now \<and> now - t < real_of_int (window_seconds rl)) (requests rl) \<longrightarrow>
      (\<exists>d. fst (acquire now rl) = Inr (Some d) \<and> 0 < d \<and> d \<le> real_of_int (window_seconds rl)))"
proof -
  let ?W = "real_of_int (window_seconds rl)"
  let ?reqs = "filter (\<lambda>t. now - t < ?W) (requests rl)"
  have a: "fst (acquire now rl) = Inr (Some d) \<longrightarrow>
      max_requests rl \<le> int (length ?reqs) \<and> d = ?W - (now - min_list ?reqs) \<and> 0 < d"
    by (auto simp: acquire_def Let_def split: if_splits)
  have b: "int (length ?reqs) < max_requests rl \<longrightarrow>
      acquire now rl = (Inr None, rl\<lparr>requests := ?reqs @ [now]\<rparr>)"
    by (simp add: acquire_def Let_def)
  have c: "fst (acquire now rl) = Inr w \<longrightarrow> requests (snd (acquire now rl)) = ?reqs @ [now]"
    by (auto simp: acquire_def Let_def split: if_splits)
  have d: "requests rl \<noteq> [] \<and> int (length (requests rl)) = max_requests rl
        \<and> list_all (\<lambda>t. t \<le> now \<and> now - t < ?W) (requests rl) \<longrightarrow>
      (\<exists>d. fst (acquire now rl) = Inr (Some d) \<and> 0 < d \<and> d \<le> ?W)"
  proof (intro impI, elim conjE)
    assume ne: "requests rl \<noteq> []" and len: "int (length (requests rl)) = max_requests rl"
      and all: "list_all (\<lambda>t. t \<le> now \<and> now - t < ?W) (requests rl)"
    from all have keep: "?reqs = requests rl"
      by (simp add: list_all_iff)
    have "min_list (requests rl) \<in> set (requests rl)"
      using ne by (simp add: min_list_Min)
    with all have m: "min_list (requests rl) \<le> now" "now - min_list (requests rl) < ?W"
      by (auto simp: list_all_iff)
    then have "0 < ?W - (now - min_list (requests rl))" "?W - (now - min_list (requests rl)) \<le> ?W"
      by simp_all
    with ne len keep show "\<exists>d. fst (acquire now rl) = Inr (Some d) \<and> 0 < d \<and> d \<le> ?W"
      by (simp add: acquire_def Let_def)
  qed
  from a b c d show ?thesis by blast
qed

theorem acquire_suspension_witness:
  "fst (acquire 30 \<lparr>max_requests = 2, window_seconds = 60, requests = [10, 20]\<rparr>) = Inr (Some 40)
   \<and> (2::int) \<le> int (length (filter (\<lambda>t. 30 - t < real_of_int 60) [10, 20::real]))
   \<and> (40::real) = real_of_int 60 - (30 - min_list (filter (\<lambda>t. 30 - t < real_of_int 60) [10, 20]))
   \<and> int (length (filter (\<lambda>t. 100 - t < real_of_int 60) [10, 50::real])) < 2
   \<and> acquire 100 \<lparr>max_requests = 2, window_seconds = 60, requests = [10, 50]\<rparr>
       = (Inr None, \<lparr>max_requests = 2, window_seconds = 60, requests = [50, 100]\<rparr>)
   \<and> requests (snd (acquire 30 \<lparr>max_requests = 2, window_seconds = 60, requests = [10, 20]\<rparr>))
       = [10, 20, 30]
   \<and> list_all (\<lambda>t. t \<le> 30 \<and> 30 - t < real_of_int 60) [10, 20::real]
   \<and> (\<exists>d. fst (acquire 30 \<lparr>max_requests = 2, window_seconds = 60, requests = [10, 20]\<rparr>) = Inr (Some d)
          \<and> 0 < d \<and> d \<le> 60)"
proof -
  let ?full = "\<lparr>max_requests = 2, window_seconds = 60, requests = [10, 20]\<rparr>"
  let ?room = "\<lparr>max_requests = 2, window_seconds = 60, requests = [10, 50]\<rparr>"
  have v: "fst (acquire 30 ?full) = Inr (Some 40)"
    by (simp add: acquire_def Let_def)
  from acquire_suspension [where now = 30 and rl = ?full and d = 40 and w = "Some 40"]
    acquire_suspension [where now = 100 and rl = ?room] v
  show ?thesis by simp
qed

section \<open>Errors of the detail lookup\<close>

lemma details_of_request:
  "fst (get_modpack_details L ev mid s)
     = (case bindE (fst (make_request ev (''/mods/'' @ str_int mid) None s)) (\<lambda>response.
               bindE (py_get response ''data'' JNull) (\<lambda>mod_data.
                 if \<not> truthy mod_data then Inl (Exn ModpackNotFoundError None)
                 else parse_modpack_details L mod_data)) of
          Inr modpack \<Rightarrow> Inr modpack
        | Inl e \<Rightarrow> if cls e = ModpackNotFoundError then Inl e else Inl (Exn ModpackServiceError (Some e)))"
  by (simp add: get_modpack_details_def split: prod.splits sum.splits)

lemma make_request_404:
  assumes "client s \<noteq> None"
    and "fst (get_cached_data (now_lookup ev) (get_cache_key endpoint []) s) = JNull"
    and "0 < max_requests (rate_limiter s)"
    and "upstream ev endpoint [] = Response 404 body"
  shows "fst (make_request ev endpoint None s) = Inl (Exn ModpackNotFoundError None)"
  using assms
  by (auto simp: make_request_def get_cached_data_def Let_def acquire_def
      split: option.splits if_splits prod.splits sum.splits)

lemma py_get_cls: "py_get x k d = Inl e \<Longrightarrow> cls e = AttributeError"
  by (cases x) auto

lemma py_getitem_cls: "py_getitem x k = Inl e \<Longrightarrow> cls e = KeyError \<or> cls e = TypeError"
  by (cases x) (auto split: option.splits)

lemma py_iter_cls: "py_iter x = Inl e \<Longrightarrow> cls e = TypeError"
  by (cases x) auto

lemma py_index0_cls:
  "py_index0 x = Inl e \<Longrightarrow> cls e = IndexError \<or> cls e = KeyError \<or> cls e = TypeError"
  by (cases x rule: py_index0.cases) auto

lemma py_replace_Z_cls: "py_replace_Z x = Inl e \<Longrightarrow> cls e = AttributeError"
  by (cases x) auto

lemma validated_cls: "validated r = Inl e \<Longrightarrow> cls e = ValidationError"
  by (auto simp: validated_def split: option.splits)

lemma mapE_py_get_cls: "mapE (\<lambda>item. py_get item k d) items = Inl e \<Longrightarrow> cls e = AttributeError"
  by (induction items) (auto simp: bindE_Inl_iff dest: py_get_cls)

lemma get_each_cls:
  "get_each x field k d = Inl e \<Longrightarrow> cls e = AttributeError \<or> cls e = TypeError"
  by (auto simp: get_each_def bindE_Inl_iff dest: py_get_cls py_iter_cls mapE_py_get_cls)

lemma parse_iso_cls:
  "parse_iso L raw = Inl e \<Longrightarrow> cls e = AttributeError \<or> cls e = ValueError"
  by (auto simp: parse_iso_def bindE_Inl_iff dest: py_replace_Z_cls split: option.splits)

lemma date_modified_cls:
  "date_modified L x = Inl e \<Longrightarrow>
     cls e = AttributeError \<or> cls e = ValueError \<or> cls e = KeyError \<or> cls e = TypeError"
  by (auto simp: date_modified_def bindE_Inl_iff
      dest: py_get_cls py_getitem_cls parse_iso_cls split: if_splits)

lemma latest_index_cls:
  "latest_index x k = Inl e \<Longrightarrow>
     cls e = AttributeError \<or> cls e = IndexError \<or> cls e = KeyError \<or> cls e = TypeError"
  by (auto simp: latest_index_def bindE_Inl_iff dest: py_get_cls py_index0_cls)

lemma parse_modpack_details_cls:
  assumes "parse_modpack_details L mod_data = Inl e"
  shows "cls e \<in> {KeyError, TypeError, AttributeError, IndexError, ValueError, ValidationError}"
  using assms unfolding parse_modpack_details_def bindE_Inl_iff
  by (elim disjE exE conjE)
    (auto dest: py_get_cls py_getitem_cls get_each_cls date_modified_cls latest_index_cls validated_cls)

text \<open>
  \<^verbatim>\<open>get_modpack_details\<close> passes a not-found error of the request pipeline on unchanged
  and wraps every other one in a \<^verbatim>\<open>ModpackServiceError\<close> that carries it; a 404 and an
  empty payload both give the not-found error; a payload that fails to normalize gives
  the wrapped failure. \<^verbatim>\<open>get_modpack_versions\<close> wraps every error of the pipeline.
\<close>

theorem details_error_propagation:
  "(fst (make_request ev (''/mods/'' @ str_int mid) None s) = Inl e \<longrightarrow>
      fst (get_modpack_details L ev mid s)
        = Inl (if cls e = ModpackNotFoundError then e else Exn ModpackServiceError (Some e)))
   \<and> (client s \<noteq> None
        \<and> fst (get_cached_data (now_lookup ev) (get_cache_key (''/mods/'' @ str_int mid) []) s) = JNull
        \<and> 0 < max_requests (rate_limiter s)
        \<and> upstream ev (''/mods/'' @ str_int mid) [] = Response 404 body \<longrightarrow>
      fst (get_modpack_details L ev mid s) = Inl (Exn ModpackNotFoundError None))
   \<and> (fst (make_request ev (''/mods/'' @ str_int mid) None s) = Inr response
        \<and> py_get response ''data'' JNull = Inr mod_data \<and> \<not> truthy mod_data \<longrightarrow>
      fst (get_modpack_details L ev mid s) = Inl (Exn ModpackNotFoundError None))
   \<and> (fst (make_request ev (''/mods/'' @ str_int mid) None s) = Inr response
        \<and> py_get response ''data'' JNull = Inr mod_data \<and> truthy mod_data
        \<and> parse_modpack_details L mod_data = Inl e \<longrightarrow>
      fst (get_modpack_details L ev mid s) = Inl (Exn ModpackServiceError (Some e)))
   \<and> (fst (make_request ev (''/mods/'' @ str_int mid @ ''/files'') (Some (versions_params g)) s) = Inl e \<longrightarrow>
      fst (get_modpack_versions L ev mid g s) = Inl (Exn ModpackServiceError (Some e)))"
proof -
  let ?req = "fst (make_request ev (''/mods/'' @ str_int mid) None s)"
  have a: "?req = Inl e \<longrightarrow> fst (get_modpack_details L ev mid s)
        = Inl (if cls e = ModpackNotFoundError then e else Exn ModpackServiceError (Some e))"
    by (simp add: details_of_request)
  have b: "client s \<noteq> None
        \<and> fst (get_cached_data (now_lookup ev) (get_cache_key (''/mods/'' @ str_int mid) []) s) = JNull
        \<and> 0 < max_requests (rate_limiter s)
        \<and> upstream ev (''/mods/'' @ str_int mid) [] = Response 404 body \<longrightarrow>
      fst (get_modpack_details L ev mid s) = Inl (Exn ModpackNotFoundError None)"
    using make_request_404 [of s ev "''/mods/'' @ str_int mid" body]
    by (auto simp: details_of_request)
  have c: "?req = Inr response \<and> py_get response ''data'' JNull = Inr mod_data \<and> \<not> truthy mod_data \<longrightarrow>
      fst (get_modpack_details L ev mid s) = Inl (Exn ModpackNotFoundError None)"
    by (simp add: details_of_request)
  have d: "?req = Inr response \<and> py_get response ''data'' JNull = Inr mod_data \<and> truthy mod_data
        \<and> parse_modpack_details L mod_data = Inl e \<longrightarrow>
      fst (get_modpack_details L ev mid s) = Inl (Exn ModpackServiceError (Some e))"
    using parse_modpack_details_cls [of L mod_data e]
    by (auto simp: details_of_request)
  have e: "fst (make_request ev (''/mods/'' @ str_int mid @ ''/files'') (Some (versions_params g)) s) = Inl e \<longrightarrow>
      fst (get_modpack_versions L ev mid g s) = Inl (Exn ModpackServiceError (Some e))"
    by (auto simp: get_modpack_versions_def split: prod.splits)
  from a b c d e show ?thesis by blast
qed


theorem details_error_propagation_witness:
  "fst (make_request (answering (Response 500 None)) (''/mods/'' @ str_int 123456) None test_service)
     = Inl (Exn ModpackServiceError None)
   \<and> fst (get_modpack_details test_lib (answering (Response 500 None)) 123456 test_service)
     = Inl (Exn ModpackServiceError (Some (Exn ModpackServiceError None)))
   \<and> client test_service \<noteq> None
   \<and> 0 < max_requests (rate_limiter test_service)
   \<and> fst (get_modpack_details test_lib (answering (Response 404 None)) 999999999 test_service)
     = Inl (Exn ModpackNotFoundError None)
   \<and> fst (make_request (answering (Response 200 (Some (JObj [])))) (''/mods/'' @ str_int 123456) None test_service)
     = Inr (JObj [])
   \<and> \<not> truthy JNull
   \<and> fst (get_modpack_details test_lib (answering (Response 200 (Some (JObj [])))) 123456 test_service)
     = Inl (Exn ModpackNotFoundError None)
   \<and> parse_modpack_details test_lib (JObj [(''name'', JStr ''Bare'')]) = Inl (Exn KeyError None)
   \<and> fst (get_modpack_details test_lib
           (answering (Response 200 (Some (JObj [(''data'', JObj [(''name'', JStr ''Bare'')])]))))
           123456 test_service)
     = Inl (Exn ModpackServiceError (Some (Exn KeyError None)))
   \<and> fst (get_modpack_versions test_lib (answering (Raised ConnectError)) 123456 None test_service)
     = Inl (Exn ModpackServiceError (Some (Exn APIConnectionError (Some (Exn ConnectError None)))))"
proof -
  note inst = details_error_propagation [where L = test_lib and s = test_service]
  have cl: "client test_service \<noteq> None"
    by (simp add: test_service_def aenter_def Let_def)
  have lim: "0 < max_requests (rate_limiter test_service)"
    by (simp add: test_service_def aenter_def ModpackService_init_def RateLimiter_init_def Let_def)
  have miss: "fst (get_cached_data now k test_service) = JNull" for now k
    by (simp add: get_cached_data_def test_service_def aenter_def ModpackService_init_def Let_def)
  have req: "fst (make_request (answering (Response 200 (Some r))) endpoint po test_service) = Inr r"
    for r endpoint po
    by (simp add: make_request_def test_service_def answering_def aenter_def ModpackService_init_def
          get_cached_data_def acquire_def RateLimiter_init_def cache_data_def Let_def)
  have r500: "fst (make_request (answering (Response 500 None)) endpoint po test_service)
                = Inl (Exn ModpackServiceError None)" for endpoint po
    by (simp add: make_request_def test_service_def answering_def aenter_def ModpackService_init_def
          get_cached_data_def acquire_def RateLimiter_init_def Let_def)
  have rconn: "fst (make_request (answering (Raised ConnectError)) endpoint po test_service)
                = Inl (Exn APIConnectionError (Some (Exn ConnectError None)))" for endpoint po
    by (simp add: make_request_def test_service_def answering_def aenter_def ModpackService_init_def
          get_cached_data_def acquire_def RateLimiter_init_def handle_http_def Let_def)
  have w1: "fst (get_modpack_details test_lib (answering (Response 500 None)) 123456 test_service)
     = Inl (Exn ModpackServiceError (Some (Exn ModpackServiceError None)))"
    using inst [THEN conjunct1, rule_format, OF r500, of 123456] by simp
  have h2: "client test_service \<noteq> None
        \<and> fst (get_cached_data (now_lookup (answering (Response 404 None)))
                 (get_cache_key (''/mods/'' @ str_int 999999999) []) test_service) = JNull
        \<and> 0 < max_requests (rate_limiter test_service)
        \<and> upstream (answering (Response 404 None)) (''/mods/'' @ str_int 999999999) [] = Response 404 None"
    using cl lim miss by (simp add: answering_def)
  have w2: "fst (get_modpack_details test_lib (answering (Response 404 None)) 999999999 test_service)
     = Inl (Exn ModpackNotFoundError None)"
    by (rule inst [THEN conjunct2, THEN conjunct1, rule_format, OF h2])
  have h3: "fst (make_request (answering (Response 200 (Some (JObj [])))) (''/mods/'' @ str_int 123456) None test_service)
              = Inr (JObj [])
      \<and> py_get (JObj []) ''data'' JNull = Inr JNull \<and> \<not> truthy JNull"
    using req by simp
  have w3: "fst (get_modpack_details test_lib (answering (Response 200 (Some (JObj [])))) 123456 test_service)
     = Inl (Exn ModpackNotFoundError None)"
    by (rule inst [THEN conjunct2, THEN conjunct2, THEN conjunct1, rule_format, OF h3])
  have p: "parse_modpack_details test_lib (JObj [(''name'', JStr ''Bare'')]) = Inl (Exn KeyError None)"
    by (simp add: parse_modpack_details_def)
  have h4: "fst (make_request (answering (Response 200 (Some (JObj [(''data'', JObj [(''name'', JStr ''Bare'')])]))))
                 (''/mods/'' @ str_int 123456) None test_service)
              = Inr (JObj [(''data'', JObj [(''name'', JStr ''Bare'')])])
      \<and> py_get (JObj [(''data'', JObj [(''name'', JStr ''Bare'')])]) ''data'' JNull
          = Inr (JObj [(''name'', JStr ''Bare'')])
      \<and> truthy (JObj [(''name'', JStr ''Bare'')])
      \<and> parse_modpack_details test_lib (JObj [(''name'', JStr ''Bare'')]) = Inl (Exn KeyError None)"
    using req p by simp
  have w4: "fst (get_modpack_details test_lib
           (answering (Response 200 (Some (JObj [(''data'', JObj [(''name'', JStr ''Bare'')])]))))
           123456 test_service)
     = Inl (Exn ModpackServiceError (Some (Exn KeyError None)))"
    by (rule inst [THEN conjunct2, THEN conjunct2, THEN conjunct2, THEN conjunct1, rule_format, OF h4])
  have w5: "fst (get_modpack_versions test_lib (answering (Raised ConnectError)) 123456 None test_service)
     = Inl (Exn ModpackServiceError (Some (Exn APIConnectionError (Some (Exn ConnectError None)))))"
    by (rule inst [THEN conjunct2, THEN conjunct2, THEN conjunct2, THEN conjunct2, rule_format, OF rconn])
  from r500 [of "''/mods/'' @ str_int 123456" None] w1 cl lim w2 req [of "JObj []" "''/mods/'' @ str_int 123456" None]
    w3 p w4 w5
  show ?thesis by simp
qed

end
